theory Spec2Isabelle
  imports Main
begin

section \<open>Errors\<close>

text \<open>
  Go's \<^verbatim>\<open>error\<close> values, as far as the two source files build or inspect them.
  A \<^verbatim>\<open>nil\<close> error is \<open>None\<close> of \<open>error option\<close>.
  \<^item> \<open>ErrorString s\<close> is \<^verbatim>\<open>fmt.Errorf(s)\<close> without a wrapped error;
  \<^item> \<open>WrapError p e\<close> is \<^verbatim>\<open>fmt.Errorf(p + "%w", e)\<close>: the prefix text and the wrapped error;
  \<^item> \<open>PathError\<close> and \<open>LinkError\<close> are the errors of package \<^verbatim>\<open>os\<close>;
  \<^item> \<open>ExitError n\<close> is a tool that ended with exit status \<open>n\<close>;
  \<^item> \<open>StatusError r\<close> is an error of the cluster API with reason \<open>r\<close>.
\<close>

type_synonym path = string

datatype errno = ENOENT | EEXIST | ENOTEMPTY | ENOTDIR | EINVAL | EACCES | EIO

datatype error =
    ErrorString string
  | WrapError string error
  | PathError string path errno
  | LinkError string path path errno
  | ExitError nat
  | StatusError string

fun errnoText :: "errno \<Rightarrow> string" where
  "errnoText ENOENT = ''no such file or directory''"
| "errnoText EEXIST = ''file exists''"
| "errnoText ENOTEMPTY = ''directory not empty''"
| "errnoText ENOTDIR = ''not a directory''"
| "errnoText EINVAL = ''invalid argument''"
| "errnoText EACCES = ''permission denied''"
| "errnoText EIO = ''input/output error''"

text \<open>The message of an error (Go's \<^verbatim>\<open>Error()\<close>); exit statuses are left symbolic.\<close>

fun Error :: "error \<Rightarrow> string" where
  "Error (ErrorString s) = s"
| "Error (WrapError p e) = p @ Error e"
| "Error (PathError opn p en) = opn @ '' '' @ p @ '': '' @ errnoText en"
| "Error (LinkError opn p q en) = opn @ '' '' @ p @ '' '' @ q @ '': '' @ errnoText en"
| "Error (ExitError n) = ''exit status''"
| "Error (StatusError r) = r"

text \<open>\<^verbatim>\<open>errors.Unwrap\<close>: the error a \<^verbatim>\<open>%w\<close> verb wrapped.\<close>

fun Unwrap :: "error \<Rightarrow> error option" where
  "Unwrap (WrapError p e) = Some e"
| "Unwrap _ = None"

text \<open>
  \<^verbatim>\<open>os.IsNotExist\<close>: looks through the errors of package \<^verbatim>\<open>os\<close> only,
  not through \<^verbatim>\<open>%w\<close>.
\<close>

fun IsNotExist :: "error \<Rightarrow> bool" where
  "IsNotExist (PathError opn p en) = (en = ENOENT)"
| "IsNotExist (LinkError opn p q en) = (en = ENOENT)"
| "IsNotExist _ = False"

section \<open>Paths\<close>

text \<open>\<^verbatim>\<open>strings.Split(s, "/")\<close>.\<close>

fun splitSlash :: "string \<Rightarrow> string list" where
  "splitSlash [] = [[]]"
| "splitSlash (c # cs) =
     (if c = CHR ''/'' then [] # splitSlash cs
      else (case splitSlash cs of [] \<Rightarrow> [[c]] | x # xs \<Rightarrow> (c # x) # xs))"

fun joinSlash :: "string list \<Rightarrow> string" where
  "joinSlash [] = []"
| "joinSlash [x] = x"
| "joinSlash (x # y # ys) = x @ ''/'' @ joinSlash (y # ys)"

text \<open>
  One step of \<^verbatim>\<open>path.Clean\<close> on the stack of kept elements (last kept element first):
  a \<^verbatim>\<open>..\<close> removes the element before it, is dropped at the root of a rooted path and is
  kept at the start of a relative one.
\<close>

definition cleanStep :: "bool \<Rightarrow> string list \<Rightarrow> string \<Rightarrow> string list" where
  "cleanStep rooted stk c =
     (if c = ''..'' then
        (case stk of
           [] \<Rightarrow> (if rooted then [] else [''..''])
         | t # ts \<Rightarrow> (if t = ''..'' then c # t # ts else ts))
      else c # stk)"

text \<open>
  \<^verbatim>\<open>path.Clean\<close> of Go's standard library: multiple slashes become one, \<^verbatim>\<open>.\<close> elements
  go, \<^verbatim>\<open>..\<close> elements are resolved, and the empty result is \<^verbatim>\<open>.\<close>.
\<close>

definition Clean :: "string \<Rightarrow> string" where
  "Clean p =
     (if p = [] then ''.''
      else
        let rooted = (hd p = CHR ''/'');
            elems = filter (\<lambda>c. c \<noteq> [] \<and> c \<noteq> ''.'') (splitSlash p);
            out = joinSlash (rev (foldl (cleanStep rooted) [] elems))
        in if rooted then ''/'' @ out else if out = [] then ''.'' else out)"

text \<open>
  \<^verbatim>\<open>path.Join\<close>: empty elements are ignored, the rest is joined with slashes and cleaned;
  with no non-empty element the result is the empty string.
\<close>

definition path_Join :: "string list \<Rightarrow> string" where
  "path_Join elem =
     (if concat elem = [] then []
      else Clean (joinSlash (filter (\<lambda>e. e \<noteq> []) elem)))"

section \<open>The file system\<close>

text \<open>
  The part of the machine the Executor acts on. A file system is an association list
  from cleaned paths to nodes. What a tool writes is kept symbolic: \<open>DumpAll\<close> is the text
  \<^verbatim>\<open>pg_dumpall\<close> writes, \<open>Sed s c\<close> is the content \<open>c\<close> after \<^verbatim>\<open>sed -i\<close> ran the script \<open>s\<close> on it.
\<close>

datatype content = Text string | DumpAll | Sed string content

datatype fsnode = Dir | File content

type_synonym filesystem = "(path \<times> fsnode) list"

definition lookup :: "filesystem \<Rightarrow> path \<Rightarrow> fsnode option" where
  "lookup f p = map_of f (Clean p)"

definition pathExists :: "filesystem \<Rightarrow> path \<Rightarrow> bool" where
  "pathExists f p = (lookup f p \<noteq> None)"

text \<open>\<open>atOrBelow d p\<close>: the cleaned path \<open>p\<close> is the cleaned path \<open>d\<close> or lies below it.\<close>

definition atOrBelow :: "path \<Rightarrow> path \<Rightarrow> bool" where
  "atOrBelow d p = (p = d \<or> d = ''/'' \<or> take (Suc (length d)) p = d @ ''/'')"

definition hasChildren :: "path \<Rightarrow> filesystem \<Rightarrow> bool" where
  "hasChildren d f = (filter (\<lambda>kv. atOrBelow d (fst kv) \<and> fst kv \<noteq> d) f \<noteq> [])"

definition fsPut :: "path \<Rightarrow> fsnode \<Rightarrow> filesystem \<Rightarrow> filesystem" where
  "fsPut p n f = (p, n) # filter (\<lambda>kv. fst kv \<noteq> p) f"

definition fsRemoveAll :: "path \<Rightarrow> filesystem \<Rightarrow> filesystem" where
  "fsRemoveAll d f = filter (\<lambda>kv. \<not> atOrBelow d (fst kv)) f"

text \<open>
  Moving the node at \<open>old\<close> to \<open>new\<close>: every path at or below \<open>old\<close> is re-rooted at \<open>new\<close>,
  so a directory moves with all it contains; whatever else was at or below \<open>new\<close> goes.
\<close>

definition fsMove :: "path \<Rightarrow> path \<Rightarrow> filesystem \<Rightarrow> filesystem" where
  "fsMove old new f =
     map (\<lambda>kv. (new @ drop (length old) (fst kv), snd kv)) (filter (\<lambda>kv. atOrBelow old (fst kv)) f)
     @ filter (\<lambda>kv. \<not> atOrBelow old (fst kv) \<and> \<not> atOrBelow new (fst kv)) f"

definition fsRewrite :: "path \<Rightarrow> string \<Rightarrow> filesystem \<Rightarrow> filesystem" where
  "fsRewrite p s f =
     map (\<lambda>kv. if fst kv = p then (case snd kv of File c \<Rightarrow> (p, File (Sed s c)) | Dir \<Rightarrow> kv) else kv) f"

section \<open>Operations on the outside world\<close>

text \<open>
  Every call the Executor makes to the operating system or to an external tool is an
  event. \<open>Streamed argv name\<close> is \<^verbatim>\<open>execlog.RunStreaming(exec.Command(argv...), name)\<close>,
  \<open>Ran argv\<close> is \<^verbatim>\<open>exec.Command(argv...).Run()\<close>.
\<close>

datatype event =
    EnsureDir path
  | Remove path
  | Rename path path
  | RemoveAll path
  | Streamed "string list" string
  | Ran "string list"

text \<open>
  What a tool does to the file system when it exits with status zero, read from its
  argument vector: \<^verbatim>\<open>pg_dumpall -f F\<close> writes the dump to \<open>F\<close>, \<^verbatim>\<open>sed -i ... SCRIPT F\<close>
  rewrites \<open>F\<close> in place, \<^verbatim>\<open>initdb -D D\<close> creates the directory \<open>D\<close>; \<^verbatim>\<open>pg_ctl\<close> and
  \<^verbatim>\<open>psql\<close> leave the modelled paths alone.
\<close>

definition toolEffect :: "string list \<Rightarrow> filesystem \<Rightarrow> filesystem" where
  "toolEffect argv f =
     (if length argv = 3 \<and> hd argv = ''pg_dumpall'' then fsPut (Clean (argv ! 2)) (File DumpAll) f
      else if 4 \<le> length argv \<and> hd argv = ''sed'' then
        fsRewrite (Clean (last argv)) (argv ! (length argv - 2)) f
      else if 3 \<le> length argv \<and> hd argv = ''initdb'' then fsPut (Clean (argv ! 2)) Dir f
      else f)"

text \<open>
  The failures the file system itself decides, after package \<^verbatim>\<open>os\<close> on Unix:
  removing a missing path or a directory that is not empty fails; renaming fails when the
  source is missing, when the target is an existing directory (\<^verbatim>\<open>os.Rename\<close> checks this
  before the system call), when a directory would replace a file or move below itself.
  \<^verbatim>\<open>os.RemoveAll\<close> of a missing path is no error. A tool's exit status is not decided here.
\<close>

fun refusal :: "event \<Rightarrow> filesystem \<Rightarrow> error option" where
  "refusal (EnsureDir p) f =
     (case lookup f p of Some (File c) \<Rightarrow> Some (PathError ''mkdir'' p ENOTDIR) | _ \<Rightarrow> None)"
| "refusal (Remove p) f =
     (case lookup f p of
        None \<Rightarrow> Some (PathError ''remove'' p ENOENT)
      | Some Dir \<Rightarrow>
          (if hasChildren (Clean p) f then Some (PathError ''remove'' p ENOTEMPTY) else None)
      | Some (File c) \<Rightarrow> None)"
| "refusal (Rename old new) f =
     (case lookup f old of
        None \<Rightarrow> Some (LinkError ''rename'' old new ENOENT)
      | Some n \<Rightarrow>
          (if Clean old = Clean new then None
           else (case lookup f new of
                   Some Dir \<Rightarrow> Some (LinkError ''rename'' old new EEXIST)
                 | Some (File c) \<Rightarrow>
                     (if n = Dir then Some (LinkError ''rename'' old new ENOTDIR) else None)
                 | None \<Rightarrow>
                     (if n = Dir \<and> atOrBelow (Clean old) (Clean new)
                      then Some (LinkError ''rename'' old new EINVAL) else None))))"
| "refusal (RemoveAll p) f = None"
| "refusal (Streamed argv name) f = None"
| "refusal (Ran argv) f = None"

fun effect :: "event \<Rightarrow> filesystem \<Rightarrow> filesystem" where
  "effect (EnsureDir p) f = (if lookup f p = None then fsPut (Clean p) Dir f else f)"
| "effect (Remove p) f = filter (\<lambda>kv. fst kv \<noteq> Clean p) f"
| "effect (Rename old new) f =
     (if Clean old = Clean new then f else fsMove (Clean old) (Clean new) f)"
| "effect (RemoveAll p) f = fsRemoveAll (Clean p) f"
| "effect (Streamed argv name) f = toolEffect argv f"
| "effect (Ran argv) f = toolEffect argv f"

text \<open>
  The world of one Executor process: the file system, the history of the calls made so
  far (each with its outcome and the file system it left), the failures the outside
  injects (\<open>faults w k\<close> is the error, if any, of call number \<open>k\<close>: a tool's non-zero exit, a
  permission or device error), and the socket directory \<^verbatim>\<open>postgres.GetSocketDir()\<close>
  answers, which the environment of the process fixes.
\<close>

record world =
  fs :: filesystem
  trace :: "(event \<times> error option \<times> filesystem) list"
  faults :: "nat \<Rightarrow> error option"
  socketDir :: path

definition attempt :: "event \<Rightarrow> world \<Rightarrow> error option" where
  "attempt ev w =
     (case faults w (length (trace w)) of Some e \<Rightarrow> Some e | None \<Rightarrow> refusal ev (fs w))"

text \<open>
  One call: it fails by injection or by the file system's refusal and then changes
  nothing, or it succeeds and has its effect; either way it is recorded.
\<close>

definition perform :: "event \<Rightarrow> world \<Rightarrow> error option \<times> world" where
  "perform ev w =
     (let r = attempt ev w;
          f = (if r = None then effect ev (fs w) else fs w)
      in (r, w\<lparr>fs := f, trace := trace w @ [(ev, r, f)]\<rparr>))"

definition GetSocketDir :: "world \<Rightarrow> path" where
  "GetSocketDir w = socketDir w"

definition EnsureDirectoryExists :: "path \<Rightarrow> world \<Rightarrow> error option \<times> world" where
  "EnsureDirectoryExists p = perform (EnsureDir p)"

definition os_Remove :: "path \<Rightarrow> world \<Rightarrow> error option \<times> world" where
  "os_Remove p = perform (Remove p)"

definition os_Rename :: "path \<Rightarrow> path \<Rightarrow> world \<Rightarrow> error option \<times> world" where
  "os_Rename old new = perform (Rename old new)"

definition os_RemoveAll :: "path \<Rightarrow> world \<Rightarrow> error option \<times> world" where
  "os_RemoveAll p = perform (RemoveAll p)"

definition RunStreaming :: "string list \<Rightarrow> string \<Rightarrow> world \<Rightarrow> error option \<times> world" where
  "RunStreaming argv name = perform (Streamed argv name)"

definition Cmd_Run :: "string list \<Rightarrow> world \<Rightarrow> error option \<times> world" where
  "Cmd_Run argv = perform (Ran argv)"

section \<open>The Executor\<close>

text \<open>The two \<^verbatim>\<open>sed\<close> scripts of the source.\<close>

definition includeScript :: string where
  "includeScript = ''/include.*custom.conf/d''"

definition sanitizeScript :: string where
  "sanitizeScript =
     ''s/LOCALE_PROVIDER = '' @ [CHR 0x5C] @ ''w+ |^SET transaction_timeout = 0;| WITH INHERIT TRUE GRANTED BY ''
       @ [CHR 0x5C] @ ''w+//''"

text \<open>
  Go's \<^verbatim>\<open>if err := call; err != nil && cond(err) { return handler }\<close> followed by the rest
  of the body: the handler runs on an error that meets the condition, the rest otherwise.
  \<open>ifErr\<close> is the plain \<^verbatim>\<open>err != nil\<close> test. \<open>Errorf msg\<close> is the handler
  \<^verbatim>\<open>return fmt.Errorf(msg + "%w", err)\<close>.
\<close>

definition ifErrAnd ::
  "error option \<times> world \<Rightarrow> (error \<Rightarrow> bool) \<Rightarrow> (error \<Rightarrow> world \<Rightarrow> error option \<times> world) \<Rightarrow>
   (world \<Rightarrow> error option \<times> world) \<Rightarrow> error option \<times> world" where
  "ifErrAnd r cond handler rest =
     (case fst r of
        Some err \<Rightarrow> (if cond err then handler err (snd r) else rest (snd r))
      | None \<Rightarrow> rest (snd r))"

definition ifErr ::
  "error option \<times> world \<Rightarrow> (error \<Rightarrow> world \<Rightarrow> error option \<times> world) \<Rightarrow>
   (world \<Rightarrow> error option \<times> world) \<Rightarrow> error option \<times> world" where
  "ifErr r handler rest = ifErrAnd r (\<lambda>err. True) handler rest"

definition Errorf :: "string \<Rightarrow> error \<Rightarrow> world \<Rightarrow> error option \<times> world" where
  "Errorf msg err w = (Some (WrapError msg err), w)"

text \<open>
  \<^verbatim>\<open>executeDowngrade(ctx, instance, pgData)\<close>, statement by statement. The context and
  the instance are not used by the body. The two \<^verbatim>\<open>exec.Command(...).Run()\<close> calls drop
  their outcome and keep only the world they leave. (The source declares \<^verbatim>\<open>sedCmd\<close> with
  \<^verbatim>\<open>:=\<close> a second time; the model follows the statements in their order.)
\<close>

definition executeDowngrade :: "path \<Rightarrow> world \<Rightarrow> error option \<times> world" where
  "executeDowngrade pgData w0 =
  (if pgData = [] then (Some (ErrorString ''PGDATA not set''), w0)
   else
   ifErr (EnsureDirectoryExists (GetSocketDir w0) w0)
     (Errorf ''while creating socket directory: '') (\<lambda>w.
   let dumpFile = path_Join [pgData, ''downgrade_dump.sql''] in
   ifErrAnd (os_Remove (path_Join [pgData, ''custom.conf'']) w) (\<lambda>err. \<not> IsNotExist err)
     (Errorf ''failed to remove custom.conf: '') (\<lambda>w.
   ifErr (RunStreaming [''sed'', ''-i'', includeScript, path_Join [pgData, ''postgresql.conf'']] ''sed'' w)
     (Errorf ''sed failed: '') (\<lambda>w.
   ifErr (RunStreaming [''pg_ctl'', ''-D'', pgData, ''-w'', ''start''] ''pg_ctl'' w)
     (Errorf ''pg_ctl start failed: '') (\<lambda>w.
   ifErr (RunStreaming [''pg_dumpall'', ''-f'', dumpFile] ''pg_dumpall'' w)
     (\<lambda>err w. Errorf ''pg_dumpall failed: '' err (snd (Cmd_Run [''pg_ctl'', ''-D'', pgData, ''stop''] w))) (\<lambda>w.
   ifErr (RunStreaming [''pg_ctl'', ''-D'', pgData, ''-w'', ''stop''] ''pg_ctl'' w)
     (Errorf ''pg_ctl stop failed: '') (\<lambda>w.
   ifErr (RunStreaming [''sed'', ''-i'', ''-E'', sanitizeScript, dumpFile] ''sed'' w)
     (Errorf ''sed failed: '') (\<lambda>w.
   ifErr (os_Rename pgData (pgData @ ''.old'') w)
     (Errorf ''failed to rename PGDATA: '') (\<lambda>w.
   ifErr (RunStreaming [''initdb'', ''-D'', pgData, ''--username'', ''postgres''] ''initdb'' w)
     (Errorf ''initdb failed: '') (\<lambda>w.
   ifErr (RunStreaming [''pg_ctl'', ''-D'', pgData, ''-w'', ''start''] ''pg_ctl'' w)
     (Errorf ''pg_ctl start failed: '') (\<lambda>w.
   ifErr (RunStreaming [''psql'', ''-f'', dumpFile, ''postgres''] ''psql'' w)
     (\<lambda>err w. Errorf ''restore failed: '' err (snd (Cmd_Run [''pg_ctl'', ''-D'', pgData, ''stop''] w))) (\<lambda>w.
   ifErr (RunStreaming [''pg_ctl'', ''-D'', pgData, ''-w'', ''stop''] ''pg_ctl'' w)
     (Errorf ''pg_ctl stop failed: '') (\<lambda>w.
   ifErr (os_RemoveAll (pgData @ ''.old'') w)
     (Errorf ''failed to remove old PGDATA: '') (\<lambda>w.
   (None, w)))))))))))))))"

text \<open>A fresh process: nothing has been called yet.\<close>

definition start :: "filesystem \<Rightarrow> path \<Rightarrow> (nat \<Rightarrow> error option) \<Rightarrow> world" where
  "start f sd flt = \<lparr>fs = f, trace = [], faults = flt, socketDir = sd\<rparr>"

text \<open>What the history says was called, and how each call ended.\<close>

definition outcomes :: "(event \<times> error option \<times> filesystem) list \<Rightarrow> (event \<times> error option) list" where
  "outcomes tr = map (\<lambda>t. (fst t, fst (snd t))) tr"

text \<open>The calls of a run that goes through to the end, in the order of the source.\<close>

definition fullRun :: "path \<Rightarrow> path \<Rightarrow> event list" where
  "fullRun pgData sd =
     (let dumpFile = path_Join [pgData, ''downgrade_dump.sql''] in
      [EnsureDir sd,
       Remove (path_Join [pgData, ''custom.conf'']),
       Streamed [''sed'', ''-i'', includeScript, path_Join [pgData, ''postgresql.conf'']] ''sed'',
       Streamed [''pg_ctl'', ''-D'', pgData, ''-w'', ''start''] ''pg_ctl'',
       Streamed [''pg_dumpall'', ''-f'', dumpFile] ''pg_dumpall'',
       Streamed [''pg_ctl'', ''-D'', pgData, ''-w'', ''stop''] ''pg_ctl'',
       Streamed [''sed'', ''-i'', ''-E'', sanitizeScript, dumpFile] ''sed'',
       Rename pgData (pgData @ ''.old''),
       Streamed [''initdb'', ''-D'', pgData, ''--username'', ''postgres''] ''initdb'',
       Streamed [''pg_ctl'', ''-D'', pgData, ''-w'', ''start''] ''pg_ctl'',
       Streamed [''psql'', ''-f'', dumpFile, ''postgres''] ''psql'',
       Streamed [''pg_ctl'', ''-D'', pgData, ''-w'', ''stop''] ''pg_ctl'',
       RemoveAll (pgData @ ''.old'')])"

section \<open>The state of the data directory\<close>






section \<open>The Trigger\<close>

subsection \<open>Cluster, units and the API client\<close>

text \<open>
  The fields of \<^verbatim>\<open>apiv1.Cluster\<close> the Trigger reads or writes: the recorded image information
  of the data directory (\<^verbatim>\<open>Status.PGDataImageInfo\<close>, \<open>None\<close> for \<^verbatim>\<open>nil\<close>), the phase and its
  reason. \<open>ImageName\<close> stands for the declared image the requested version is read from.
\<close>

record PGDataImageInfo =
  Image :: string
  MajorVersion :: int

record Cluster =
  Name :: string
  ImageName :: string
  Status_PGDataImageInfo :: "PGDataImageInfo option"
  Status_Phase :: string
  Status_PhaseReason :: string

type_synonym Pod = string

record PersistentVolumeClaim =
  pvcName :: string
  pvcRole :: string
  pvcSerial :: int

text \<open>
  A \<^verbatim>\<open>batchv1.Job\<close>, the execution unit: its name, the role and node serial it was built
  for, its command and its controller owner.
\<close>

record Job =
  JobName :: string
  Role :: string
  NodeSerial :: int
  Command :: "string list"
  Owner :: "string option"

record Result =
  Requeue :: bool

text \<open>
  The API client \<^verbatim>\<open>c\<close>: the units the API server holds, the requests sent so far with their
  outcomes, the failures the server injects (\<open>apiFaults c k\<close> for request number \<open>k\<close>), and
  whether the client's scheme knows the cluster type.
\<close>

datatype request = PatchStatus string string string | CreateJob Job

record client =
  jobs :: "Job list"
  requests :: "(request \<times> error option) list"
  apiFaults :: "nat \<Rightarrow> error option"
  schemeHasCluster :: bool

text \<open>
  Functions of the repository the Trigger calls and whose code is not among the sources;
  they are parameters of the model: \<^verbatim>\<open>cluster.GetPostgresqlMajorVersion()\<close>,
  \<^verbatim>\<open>getPrimarySerial(pvcs)\<close> (each answering a value and an error, as in Go) and
  \<^verbatim>\<open>specs.CreatePrimaryJob(cluster, nodeSerial, role, command)\<close>.
\<close>

record collaborators =
  GetPostgresqlMajorVersion :: "Cluster \<Rightarrow> int \<times> error option"
  getPrimarySerial :: "PersistentVolumeClaim list \<Rightarrow> int \<times> error option"
  CreatePrimaryJob :: "Cluster \<Rightarrow> int \<Rightarrow> string \<Rightarrow> string list \<Rightarrow> Job"

text \<open>
  Modelled from the spec: \<^verbatim>\<open>apiv1.PhaseMajorUpgrade\<close>, the phase string of a major version
  change, is declared in the API package outside the sources. No proof depends on its text.
\<close>

definition PhaseMajorUpgrade :: string where
  "PhaseMajorUpgrade = ''Upgrading Postgres major version''"

text \<open>
  Modelled from the spec: \<^verbatim>\<open>registerPhase\<close> is not among the sources. It records the phase
  and the human-readable message on the cluster entity through one request to the API;
  when the request fails nothing is recorded.
\<close>

definition registerPhase ::
  "client \<Rightarrow> Cluster \<Rightarrow> string \<Rightarrow> string \<Rightarrow> error option \<times> client \<times> Cluster" where
  "registerPhase c cluster phase reason =
     (let r = apiFaults c (length (requests c));
          c' = c\<lparr>requests := requests c @ [(PatchStatus (Name cluster) phase reason, r)]\<rparr>
      in if r = None
         then (None, c', cluster\<lparr>Status_Phase := phase, Status_PhaseReason := reason\<rparr>)
         else (r, c', cluster))"

text \<open>
  \<^verbatim>\<open>ctrl.SetControllerReference(cluster, job, c.Scheme())\<close> of controller-runtime: it fails
  when the scheme does not know the owner's type or the unit already has another controller,
  and makes the cluster the unit's controller otherwise.
\<close>

definition SetControllerReference :: "Cluster \<Rightarrow> Job \<Rightarrow> client \<Rightarrow> error option \<times> Job" where
  "SetControllerReference cluster job c =
     (if \<not> schemeHasCluster c then (Some (ErrorString ''no kind is registered for the type''), job)
      else (case Owner job of
              None \<Rightarrow> (None, job\<lparr>Owner := Some (Name cluster)\<rparr>)
            | Some ow \<Rightarrow>
                (if ow = Name cluster then (None, job)
                 else (Some (ErrorString ''object is already owned by another controller''), job))))"

text \<open>
  \<^verbatim>\<open>c.Create(ctx, job)\<close>: the API server refuses a unit whose name is taken (AlreadyExists),
  may fail for reasons of its own, and stores the unit otherwise.
\<close>

definition Create :: "client \<Rightarrow> Job \<Rightarrow> error option \<times> client" where
  "Create c job =
     (let r = (case apiFaults c (length (requests c)) of
                 Some e \<Rightarrow> Some e
               | None \<Rightarrow>
                   (if JobName job \<in> set (map JobName (jobs c))
                    then Some (StatusError ''AlreadyExists'') else None));
          c' = c\<lparr>requests := requests c @ [(CreateJob job, r)]\<rparr>
      in if r = None then (None, c'\<lparr>jobs := jobs c @ [job]\<rparr>) else (r, c'))"

subsection \<open>Formatting\<close>

text \<open>\<^verbatim>\<open>%v\<close> of an integer: its decimal digits.\<close>

definition digitChar :: "nat \<Rightarrow> char" where
  "digitChar d = ''0123456789'' ! d"

fun showNat :: "nat \<Rightarrow> string" where
  "showNat n = (if n < 10 then [digitChar n] else showNat (n div 10) @ [digitChar (n mod 10)])"

declare showNat.simps [simp del]

definition showInt :: "int \<Rightarrow> string" where
  "showInt i = (if i < 0 then ''-'' @ showNat (nat (- i)) else showNat (nat i))"

definition downgradeMessage :: "int \<Rightarrow> int \<Rightarrow> string" where
  "downgradeMessage recorded requested =
     ''Downgrading cluster from version '' @ showInt recorded @ '' to '' @ showInt requested"

subsection \<open>ReconcileDowngrade\<close>

definition jobMajorDowngrade :: string where
  "jobMajorDowngrade = ''major-downgrade''"

definition createMajorDowngradeJobDefinition :: "collaborators \<Rightarrow> Cluster \<Rightarrow> int \<Rightarrow> Job" where
  "createMajorDowngradeJobDefinition d cluster nodeSerial =
     (let downgradeCommand = [''/controller/manager'', ''instance'', ''downgrade'', ''execute'']
      in CreatePrimaryJob d cluster nodeSerial jobMajorDowngrade downgradeCommand)"

text \<open>
  \<^verbatim>\<open>ReconcileDowngrade(ctx, c, cluster, instances, pvcs)\<close>. The answer is the pair
  \<^verbatim>\<open>(*ctrl.Result, error)\<close>, with the client and the cluster entity as the call leaves
  them. \<open>downgradeMessage\<close> is the \<^verbatim>\<open>fmt.Sprintf\<close> of the source; the pods are not used.
\<close>

definition ReconcileDowngrade ::
  "collaborators \<Rightarrow> client \<Rightarrow> Cluster \<Rightarrow> Pod list \<Rightarrow> PersistentVolumeClaim list \<Rightarrow>
   (Result option \<times> error option) \<times> client \<times> Cluster" where
  "ReconcileDowngrade d c cluster instances pvcs =
     (case GetPostgresqlMajorVersion d cluster of (requestedMajor, err) \<Rightarrow>
      if err \<noteq> None then ((None, err), c, cluster)
      else (case Status_PGDataImageInfo cluster of
        None \<Rightarrow> ((None, None), c, cluster)
      | Some info \<Rightarrow>
      if requestedMajor \<ge> MajorVersion info then ((None, None), c, cluster)
      else (case getPrimarySerial d pvcs of (primaryNodeSerial, err) \<Rightarrow>
      if err \<noteq> None \<or> primaryNodeSerial = 0 then ((None, err), c, cluster)
      else (case registerPhase c cluster PhaseMajorUpgrade
                   (downgradeMessage (MajorVersion info) requestedMajor) of (err, c1, cluster1) \<Rightarrow>
      if err \<noteq> None then ((None, err), c1, cluster1)
      else (let job = createMajorDowngradeJobDefinition d cluster1 primaryNodeSerial in
      case SetControllerReference cluster1 job c1 of (err, job1) \<Rightarrow>
      if err \<noteq> None then ((None, err), c1, cluster1)
      else (case Create c1 job1 of (err, c2) \<Rightarrow>
      if err \<noteq> None then ((None, err), c2, cluster1)
      else ((Some \<lparr>Requeue = True\<rparr>, None), c2, cluster1)))))))"

section \<open>Sample inputs\<close>

text \<open>A data directory of version 17 at \<^verbatim>\<open>/var/lib/pg\<close>, and ways for the outside to fail.\<close>

definition sampleFs :: filesystem where
  "sampleFs =
     [(''/var/lib/pg'', Dir),
      (''/var/lib/pg/PG_VERSION'', File (Text ''17'')),
      (''/var/lib/pg/postgresql.conf'', File (Text ''include custom.conf'')),
      (''/var/lib/pg/custom.conf'', File (Text ''shared_buffers''))]"

definition noFaults :: "nat \<Rightarrow> error option" where
  "noFaults k = None"

definition failAt :: "nat \<Rightarrow> error \<Rightarrow> nat \<Rightarrow> error option" where
  "failAt n e k = (if k = n then Some e else None)"

definition failFrom :: "nat \<Rightarrow> error \<Rightarrow> nat \<Rightarrow> error option" where
  "failFrom n e k = (if n \<le> k then Some e else None)"

text \<open>
  A cluster whose data directory is on version 17 and whose declared version is 15, its
  volumes (node 2 holds the primary role), and sample collaborators: the requested version
  is read from the image name, the primary is the first volume with the primary role
  (serial 0, no error, when there is none), and a unit is named after cluster, node and role.
\<close>

definition sampleCluster :: Cluster where
  "sampleCluster =
     \<lparr>Name = ''pg'', ImageName = ''postgresql:15'',
      Status_PGDataImageInfo = Some \<lparr>Image = ''postgresql:17'', MajorVersion = 17\<rparr>,
      Status_Phase = ''Cluster in healthy state'', Status_PhaseReason = []\<rparr>"

definition samplePvcs :: "PersistentVolumeClaim list" where
  "samplePvcs =
     [\<lparr>pvcName = ''pg-1'', pvcRole = ''replica'', pvcSerial = 1\<rparr>,
      \<lparr>pvcName = ''pg-2'', pvcRole = ''primary'', pvcSerial = 2\<rparr>]"

definition sampleCollaborators :: collaborators where
  "sampleCollaborators =
     \<lparr>GetPostgresqlMajorVersion =
        (\<lambda>cl. if ImageName cl = ''postgresql:15'' then (15, None)
               else if ImageName cl = ''postgresql:17'' then (17, None)
               else (0, Some (ErrorString ''cannot parse the image tag''))),
      getPrimarySerial =
        (\<lambda>pvcs. case filter (\<lambda>p. pvcRole p = ''primary'') pvcs of
                   [] \<Rightarrow> (0, None) | p # ps \<Rightarrow> (pvcSerial p, None)),
      CreatePrimaryJob =
        (\<lambda>cl n role cmd.
           \<lparr>JobName = Name cl @ ''-'' @ showInt n @ ''-'' @ role, Role = role, NodeSerial = n,
            Command = cmd, Owner = None\<rparr>)\<rparr>"

definition sampleClient :: "(nat \<Rightarrow> error option) \<Rightarrow> client" where
  "sampleClient flt = \<lparr>jobs = [], requests = [], apiFaults = flt, schemeHasCluster = True\<rparr>"

text \<open>
  The unit the sample collaborators build for node 2, and the client and the cluster as
  one successful invocation on the samples leaves them: the unit is active and the phase
  is recorded.
\<close>

definition sampleJob :: Job where
  "sampleJob =
     \<lparr>JobName = ''pg-2-major-downgrade'', Role = ''major-downgrade'', NodeSerial = 2,
      Command = [''/controller/manager'', ''instance'', ''downgrade'', ''execute''],
      Owner = Some ''pg''\<rparr>"

definition sampleClusterBusy :: Cluster where
  "sampleClusterBusy =
     sampleCluster\<lparr>Status_Phase := PhaseMajorUpgrade,
                    Status_PhaseReason := ''Downgrading cluster from version 17 to 15''\<rparr>"

definition sampleClientBusy :: client where
  "sampleClientBusy =
     \<lparr>jobs = [sampleJob],
      requests =
        [(PatchStatus ''pg'' PhaseMajorUpgrade ''Downgrading cluster from version 17 to 15'', None),
         (CreateJob sampleJob, None)],
      apiFaults = noFaults, schemeHasCluster = True\<rparr>"

text \<open>The same cluster once its data directory is on version 15 as well.\<close>

definition sampleClusterDone :: Cluster where
  "sampleClusterDone =
     sampleCluster\<lparr>Status_PGDataImageInfo := Some \<lparr>Image = ''postgresql:15'', MajorVersion = 15\<rparr>\<rparr>"

text \<open>The volumes of a cluster in which no member holds the primary role.\<close>

definition sampleReplicas :: "PersistentVolumeClaim list" where
  "sampleReplicas = [\<lparr>pvcName = ''pg-1'', pvcRole = ''replica'', pvcSerial = 1\<rparr>]"

text \<open>
  The volumes after the primary role has moved to node 1, and the unit the sample
  collaborators build for that node.
\<close>

definition samplePvcsSwitched :: "PersistentVolumeClaim list" where
  "samplePvcsSwitched =
     [\<lparr>pvcName = ''pg-1'', pvcRole = ''primary'', pvcSerial = 1\<rparr>,
      \<lparr>pvcName = ''pg-2'', pvcRole = ''replica'', pvcSerial = 2\<rparr>]"

definition sampleJobNode1 :: Job where
  "sampleJobNode1 =
     \<lparr>JobName = ''pg-1-major-downgrade'', Role = ''major-downgrade'', NodeSerial = 1,
      Command = [''/controller/manager'', ''instance'', ''downgrade'', ''execute''],
      Owner = Some ''pg''\<rparr>"

text \<open>Collaborators whose lookup of the primary fails.\<close>

definition brokenLookup :: collaborators where
  "brokenLookup =
     sampleCollaborators\<lparr>getPrimarySerial := (\<lambda>pvcs. (0, Some (ErrorString ''invalid node serial'')))\<rparr>"

section \<open>Paths: checks against the documentation of Go's library\<close>

lemma Clean_examples:
  "Clean ''a//c'' = ''a/c''" "Clean ''a/c/b/..'' = ''a/c''" "Clean ''/../a/b/../././/c'' = ''/a/c''"
  "Clean ''/'' = ''/''" "Clean ''a/../..'' = ''..''" "Clean ''/var/lib/pg/'' = ''/var/lib/pg''"
  "path_Join [''/var/lib/pg'', ''downgrade_dump.sql''] = ''/var/lib/pg/downgrade_dump.sql''"
  by (simp_all add: Clean_def path_Join_def cleanStep_def)

section \<open>Stepping through a run\<close>

lemma fst_perform [simp]: "fst (perform ev w) = attempt ev w"
  by (simp add: perform_def Let_def)

lemma fs_perform:
  "fs (snd (perform ev w)) = (if attempt ev w = None then effect ev (fs w) else fs w)"
  by (simp add: perform_def Let_def)

lemma fs_perform_failed [simp]: "attempt ev w = Some e \<Longrightarrow> fs (snd (perform ev w)) = fs w"
  by (simp add: fs_perform)

lemma trace_perform [simp]:
  "trace (snd (perform ev w)) = trace w @ [(ev, attempt ev w, fs (snd (perform ev w)))]"
  by (simp add: perform_def Let_def)

lemma faults_perform [simp]: "faults (snd (perform ev w)) = faults w"
  by (simp add: perform_def Let_def)

lemma socketDir_perform [simp]: "socketDir (snd (perform ev w)) = socketDir w"
  by (simp add: perform_def Let_def)

lemma start_simps [simp]:
  "fs (start f sd flt) = f" "trace (start f sd flt) = []" "faults (start f sd flt) = flt"
  "socketDir (start f sd flt) = sd"
  by (simp_all add: start_def)

lemma ifErrAnd_step:
  assumes "fst r = None \<or> (\<exists>e. fst r = Some e \<and> \<not> c e) \<Longrightarrow> (case k (snd r) of (res, w') \<Rightarrow> Q res w')"
    and "\<And>e. fst r = Some e \<Longrightarrow> c e \<Longrightarrow> (case h e (snd r) of (res, w') \<Rightarrow> Q res w')"
  shows "case ifErrAnd r c h k of (res, w') \<Rightarrow> Q res w'"
  using assms by (cases "fst r") (auto simp: ifErrAnd_def)

lemma ifErr_step:
  assumes "fst r = None \<Longrightarrow> (case k (snd r) of (res, w') \<Rightarrow> Q res w')"
    and "\<And>e. fst r = Some e \<Longrightarrow> (case h e (snd r) of (res, w') \<Rightarrow> Q res w')"
  shows "case ifErr r h k of (res, w') \<Rightarrow> Q res w'"
  using assms by (cases "fst r") (auto simp: ifErr_def ifErrAnd_def)

lemmas calls = EnsureDirectoryExists_def os_Remove_def os_Rename_def os_RemoveAll_def RunStreaming_def
  Cmd_Run_def GetSocketDir_def

lemma attempt_None: "attempt ev w = None \<Longrightarrow> refusal ev (fs w) = None"
  by (simp add: attempt_def split: option.splits)

section \<open>Facts about the file system\<close>

lemma map_of_filter_neq:
  "map_of (filter (\<lambda>kv. fst kv \<noteq> p) f) k = (if k = p then None else map_of f k)"
  by (induction f) auto

lemma map_of_map_keep_None:
  assumes "\<And>kv. fst (g kv) = fst kv"
  shows "(map_of (map g f) k = None) = (map_of f k = None)"
proof -
  have "fst ` set (map g f) = fst ` set f"
    by (simp add: image_image assms)
  then show ?thesis by (simp only: map_of_eq_None_iff)
qed

lemma pathExists_fsPut: "pathExists f q \<Longrightarrow> pathExists (fsPut p n f) q"
  by (simp add: pathExists_def lookup_def fsPut_def map_of_filter_neq)

lemma pathExists_fsRewrite: "pathExists f q \<Longrightarrow> pathExists (fsRewrite p s f) q"
  unfolding pathExists_def lookup_def fsRewrite_def
  by (subst map_of_map_keep_None) (auto split: fsnode.splits)

lemma pathExists_toolEffect: "pathExists f q \<Longrightarrow> pathExists (toolEffect argv f) q"
  by (simp add: toolEffect_def pathExists_fsPut pathExists_fsRewrite)

lemma atOrBelow_refl: "atOrBelow d d"
  by (simp add: atOrBelow_def)

lemma map_of_fsMove:
  assumes "map_of f old = Some n"
  shows "map_of (fsMove old new f) new \<noteq> None"
proof -
  have "(old, n) \<in> set f" using assms by (rule map_of_SomeD)
  then have "(new, n) \<in> set (fsMove old new f)"
    by (force simp: fsMove_def atOrBelow_refl image_iff)
  then show ?thesis
    by (metis map_of_eq_None_iff fst_conv image_eqI)
qed

lemma pathExists_rename:
  assumes "refusal (Rename old new) f = None"
  shows "pathExists (effect (Rename old new) f) new"
proof (cases "lookup f old")
  case None
  with assms show ?thesis by simp
next
  case (Some n)
  show ?thesis
  proof (cases "Clean old = Clean new")
    case True
    with Some show ?thesis by (simp add: pathExists_def lookup_def)
  next
    case False
    with Some show ?thesis by (simp add: pathExists_def lookup_def map_of_fsMove)
  qed
qed


declare refusal.simps(1,2,3) [simp del] effect.simps(1,2,3,4) [simp del]

text \<open>The same facts, about the world a call leaves.\<close>

lemma renamed_exists:
  "attempt (Rename old new) w = None \<Longrightarrow> pathExists (fs (snd (perform (Rename old new) w))) new"
  by (simp add: fs_perform pathExists_rename attempt_None)

lemma streamed_keeps:
  "pathExists (fs w) q \<Longrightarrow> pathExists (fs (snd (perform (Streamed argv name) w))) q"
  by (simp add: fs_perform pathExists_toolEffect)

lemma ran_keeps:
  "pathExists (fs w) q \<Longrightarrow> pathExists (fs (snd (perform (Ran argv) w))) q"
  by (simp add: fs_perform pathExists_toolEffect)


lemma restore_failure_run:
  "case executeDowngrade pgData (start f sd flt) of (res, w') \<Rightarrow>
    ((Streamed [''psql'', ''-f'', path_Join [pgData, ''downgrade_dump.sql''], ''postgres''] ''psql'', Some e)
        \<in> set (outcomes (trace w'))
     \<longrightarrow> res = Some (WrapError ''restore failed: '' e) \<and> pathExists (fs w') (pgData @ ''.old'')
     \<and> RemoveAll (pgData @ ''.old'') \<notin> set (map fst (trace w')))"
  unfolding executeDowngrade_def Let_def calls
  apply (cases "pgData = []")
   apply (simp add: outcomes_def)
  apply (simp only: if_False)
  apply (rule ifErr_step ifErrAnd_step)+
  apply (simp_all add: Errorf_def outcomes_def)
  apply (auto intro!: streamed_keeps ran_keeps renamed_exists)
  done


lemma rename_failure_run:
  "case executeDowngrade pgData (start f sd flt) of (res, w') \<Rightarrow>
    ((Rename pgData (pgData @ ''.old''), Some e) \<in> set (outcomes (trace w'))
     \<longrightarrow> res = Some (WrapError ''failed to rename PGDATA: '' e)
       \<and> (\<exists>pre prev. trace w' = pre @ [prev, (Rename pgData (pgData @ ''.old''), Some e, fs w')]
             \<and> length pre = 6 \<and> snd (snd prev) = fs w'))"
  unfolding executeDowngrade_def Let_def calls
  apply (cases "pgData = []")
   apply (simp add: outcomes_def)
  apply (simp only: if_False)
  apply (rule ifErr_step ifErrAnd_step)+
  apply (simp_all add: Errorf_def outcomes_def)
  done

lemma cleanup_run:
  "case executeDowngrade pgData (start f sd flt) of (res, w') \<Rightarrow>
    (((step, msg) = (Streamed [''pg_dumpall'', ''-f'', path_Join [pgData, ''downgrade_dump.sql'']] ''pg_dumpall'',
                      ''pg_dumpall failed: '')
       \<or> (step, msg) = (Streamed [''psql'', ''-f'', path_Join [pgData, ''downgrade_dump.sql''], ''postgres''] ''psql'',
                      ''restore failed: ''))
      \<and> (step, Some e) \<in> set (outcomes (trace w'))
     \<longrightarrow> res = Some (WrapError msg e)
       \<and> (\<exists>pre r. outcomes (trace w') = pre @ [(step, Some e), (Ran [''pg_ctl'', ''-D'', pgData, ''stop''], r)]))"
  unfolding executeDowngrade_def Let_def calls
  apply (cases "pgData = []")
   apply (simp add: outcomes_def)
  apply (simp only: if_False)
  apply (rule ifErr_step ifErrAnd_step)+
  apply (simp_all add: Errorf_def outcomes_def)
  apply auto
  done


section \<open>Facts about the Trigger's collaborators\<close>

lemma registerPhase_cases:
  "registerPhase c cl ph rs = (r, c1, cl1) \<Longrightarrow>
     r = apiFaults c (length (requests c))
     \<and> c1 = c\<lparr>requests := requests c @ [(PatchStatus (Name cl) ph rs, r)]\<rparr>
     \<and> cl1 = (if r = None then cl\<lparr>Status_Phase := ph, Status_PhaseReason := rs\<rparr> else cl)"
  by (auto simp: registerPhase_def Let_def split: if_splits)

lemma SetControllerReference_ok:
  "SetControllerReference cl j c = (None, j1) \<Longrightarrow> j1 = j\<lparr>Owner := Some (Name cl)\<rparr> \<and> schemeHasCluster c"
  by (auto simp: SetControllerReference_def split: if_splits option.splits)

lemma SetControllerReference_failed:
  "SetControllerReference cl j c = (Some e, j1) \<Longrightarrow> j1 = j"
  by (auto simp: SetControllerReference_def split: if_splits option.splits)

lemma Create_ok:
  "Create c j = (None, c2) \<Longrightarrow>
     c2 = c\<lparr>requests := requests c @ [(CreateJob j, None)], jobs := jobs c @ [j]\<rparr>
     \<and> JobName j \<notin> set (map JobName (jobs c)) \<and> apiFaults c (length (requests c)) = None"
  by (auto simp: Create_def Let_def split: if_splits option.splits)

lemma Create_failed:
  "Create c j = (Some e, c2) \<Longrightarrow> c2 = c\<lparr>requests := requests c @ [(CreateJob j, Some e)]\<rparr>"
  by (auto simp: Create_def Let_def split: if_splits option.splits)

lemma Create_taken:
  "apiFaults c (length (requests c)) = None \<Longrightarrow> JobName j \<in> set (map JobName (jobs c)) \<Longrightarrow>
   Create c j = (Some (StatusError ''AlreadyExists''),
                 c\<lparr>requests := requests c @ [(CreateJob j, Some (StatusError ''AlreadyExists''))]\<rparr>)"
  by (simp add: Create_def Let_def)

section \<open>Runs on the sample inputs\<close>

text \<open>
  On a concrete world a run is evaluated call by call: the outcome of a call is computed
  before the rest of the body is looked at.
\<close>

lemma ifErrAnd_weak_cong: "r = r' \<Longrightarrow> ifErrAnd r c h k = ifErrAnd r' c h k"
  by simp

lemma ifErr_weak_cong: "r = r' \<Longrightarrow> ifErr r h k = ifErr r' h k"
  by simp

lemma ifErrAnd_None: "ifErrAnd (None, w) c h k = k w"
  by (simp add: ifErrAnd_def)

lemma ifErrAnd_Some: "ifErrAnd (Some e, w) c h k = (if c e then h e w else k w)"
  by (simp add: ifErrAnd_def)

lemma ifErr_None: "ifErr (None, w) h k = k w"
  by (simp add: ifErr_def ifErrAnd_def)

lemma ifErr_Some: "ifErr (Some e, w) h k = h e w"
  by (simp add: ifErr_def ifErrAnd_def)

lemma perform_record:
  "perform ev \<lparr>fs = f, trace = t, faults = flt, socketDir = sd\<rparr> =
     (case (case flt (length t) of Some e \<Rightarrow> Some e | None \<Rightarrow> refusal ev f) of
        None \<Rightarrow>
          (None, \<lparr>fs = effect ev f, trace = t @ [(ev, None, effect ev f)], faults = flt, socketDir = sd\<rparr>)
      | Some e \<Rightarrow> (Some e, \<lparr>fs = f, trace = t @ [(ev, Some e, f)], faults = flt, socketDir = sd\<rparr>))"
  by (simp add: perform_def attempt_def Let_def split: option.splits)

lemma sample_paths:
  "path_Join [''/var/lib/pg'', ''downgrade_dump.sql''] = ''/var/lib/pg/downgrade_dump.sql''"
  "path_Join [''/var/lib/pg'', ''custom.conf''] = ''/var/lib/pg/custom.conf''"
  "path_Join [''/var/lib/pg'', ''postgresql.conf''] = ''/var/lib/pg/postgresql.conf''"
  "Clean ''/var/lib/pg'' = ''/var/lib/pg''"
  "Clean ''/var/lib/pg.old'' = ''/var/lib/pg.old''"
  "Clean ''/controller/run'' = ''/controller/run''"
  "Clean ''/var/lib/pg/downgrade_dump.sql'' = ''/var/lib/pg/downgrade_dump.sql''"
  "Clean ''/var/lib/pg.old/downgrade_dump.sql'' = ''/var/lib/pg.old/downgrade_dump.sql''"
  "Clean ''/var/lib/pg/custom.conf'' = ''/var/lib/pg/custom.conf''"
  "Clean ''/var/lib/pg/postgresql.conf'' = ''/var/lib/pg/postgresql.conf''"
  by (simp_all add: Clean_def path_Join_def cleanStep_def)

lemmas evaluate = executeDowngrade_def calls start_def Let_def ifErrAnd_None ifErrAnd_Some ifErr_None
  ifErr_Some perform_record Errorf_def refusal.simps effect.simps lookup_def toolEffect_def fsPut_def
  fsRemoveAll_def fsMove_def fsRewrite_def atOrBelow_def hasChildren_def sample_paths sampleFs_def
  noFaults_def failAt_def failFrom_def outcomes_def


lemma run_restore_fails:
  "outcomes (trace (snd (executeDowngrade ''/var/lib/pg''
       (start sampleFs ''/controller/run'' (failAt 10 (ExitError 3))))))
     = map (\<lambda>ev. (ev, None)) (take 10 (fullRun ''/var/lib/pg'' ''/controller/run''))
       @ [(Streamed [''psql'', ''-f'', ''/var/lib/pg/downgrade_dump.sql'', ''postgres''] ''psql'',
           Some (ExitError 3)),
          (Ran [''pg_ctl'', ''-D'', ''/var/lib/pg'', ''stop''], None)]"
  by (simp add: evaluate fullRun_def cong: ifErrAnd_weak_cong ifErr_weak_cong)

lemma run_dump_fails:
  "outcomes (trace (snd (executeDowngrade ''/var/lib/pg''
       (start sampleFs ''/controller/run'' (failFrom 4 (ExitError 2))))))
     = map (\<lambda>ev. (ev, None)) (take 4 (fullRun ''/var/lib/pg'' ''/controller/run''))
       @ [(Streamed [''pg_dumpall'', ''-f'', ''/var/lib/pg/downgrade_dump.sql''] ''pg_dumpall'',
           Some (ExitError 2)),
          (Ran [''pg_ctl'', ''-D'', ''/var/lib/pg'', ''stop''], Some (ExitError 2))]"
  by (simp add: evaluate fullRun_def cong: ifErrAnd_weak_cong ifErr_weak_cong)

lemma run_leftover:
  "outcomes (trace (snd (executeDowngrade ''/var/lib/pg''
       (start (sampleFs @ [(''/var/lib/pg.old'', Dir)]) ''/controller/run'' noFaults))))
     = map (\<lambda>ev. (ev, None)) (take 7 (fullRun ''/var/lib/pg'' ''/controller/run''))
       @ [(Rename ''/var/lib/pg'' ''/var/lib/pg.old'',
           Some (LinkError ''rename'' ''/var/lib/pg'' ''/var/lib/pg.old'' EEXIST))]"
  by (simp add: evaluate fullRun_def cong: ifErrAnd_weak_cong ifErr_weak_cong)

lemma pair_of_run: "r = (fst r, snd r)"
  by simp

section \<open>The Executor: the claims\<close>

text \<open>
  \<^bold>\<open>C1\<close>. The claim: when steps 1 to 8 succeed, the restore step replays the sanitized dump
  file, the very file the export step created and the sanitize step rewrote under the data
  directory. The source gives \<^verbatim>\<open>psql -f\<close> the path \<^verbatim>\<open>pgData/downgrade_dump.sql\<close> it gave
  the export and the sanitize steps, but by then \<^verbatim>\<open>os.Rename\<close> has moved the data directory,
  and the dump with it, to \<^verbatim>\<open>pgData.old\<close>, and \<^verbatim>\<open>initdb\<close> has made a new directory at the old
  name. On the sample world, where every call succeeds: the eleventh call is the replay of
  \<^verbatim>\<open>/var/lib/pg/downgrade_dump.sql\<close>; after the sanitize step that path held the sanitized
  dump; on the file system the replay starts on, that path holds nothing, and the sanitized
  dump lies at \<^verbatim>\<open>/var/lib/pg.old/downgrade_dump.sql\<close>.
\<close>

theorem executeDowngrade_replays_a_moved_file:
  "(let w' = snd (executeDowngrade ''/var/lib/pg'' (start sampleFs ''/controller/run'' noFaults));
        sanitized = snd (snd (trace w' ! 6));
        atRestore = snd (snd (trace w' ! 9))
    in fst (trace w' ! 10)
         = Streamed [''psql'', ''-f'', ''/var/lib/pg/downgrade_dump.sql'', ''postgres''] ''psql''
       \<and> lookup sanitized ''/var/lib/pg/downgrade_dump.sql'' = Some (File (Sed sanitizeScript DumpAll))
       \<and> lookup atRestore ''/var/lib/pg/downgrade_dump.sql'' = None
       \<and> lookup atRestore ''/var/lib/pg.old/downgrade_dump.sql''
           = Some (File (Sed sanitizeScript DumpAll)))"
  by (simp add: evaluate cong: ifErrAnd_weak_cong ifErr_weak_cong)



text \<open>
  \<^bold>\<open>C5\<close>. If the rename of the data directory to \<^verbatim>\<open>pgData + ".old"\<close> fails with an error
  \<open>e\<close>, the Executor returns \<^verbatim>\<open>failed to rename PGDATA\<close> wrapping \<open>e\<close>; the rename is the
  eighth and last call of the run, so no later step (initdb, start, restore, removal) is
  made; and the file system at the end of the run is the one the call before the rename
  left: the directory is where and what it was.
\<close>

theorem executeDowngrade_rename_failure:
  assumes "executeDowngrade pgData (start f sd flt) = (res, w')"
    and "(Rename pgData (pgData @ ''.old''), Some e) \<in> set (outcomes (trace w'))"
  shows "res = Some (WrapError ''failed to rename PGDATA: '' e)
       \<and> (\<exists>pre prev. trace w' = pre @ [prev, (Rename pgData (pgData @ ''.old''), Some e, fs w')]
             \<and> length pre = 6 \<and> snd (snd prev) = fs w')"
  using rename_failure_run [where pgData = pgData and f = f and sd = sd and flt = flt and e = e] assms by simp

theorem executeDowngrade_rename_failure_witness:
  "(Rename ''/var/lib/pg'' ''/var/lib/pg.old'',
      Some (LinkError ''rename'' ''/var/lib/pg'' ''/var/lib/pg.old'' EEXIST))
     \<in> set (outcomes (trace (snd (executeDowngrade ''/var/lib/pg''
          (start (sampleFs @ [(''/var/lib/pg.old'', Dir)]) ''/controller/run'' noFaults)))))
   \<and> fst (executeDowngrade ''/var/lib/pg''
          (start (sampleFs @ [(''/var/lib/pg.old'', Dir)]) ''/controller/run'' noFaults))
       = Some (WrapError ''failed to rename PGDATA: ''
                 (LinkError ''rename'' ''/var/lib/pg'' ''/var/lib/pg.old'' EEXIST))
   \<and> length (trace (snd (executeDowngrade ''/var/lib/pg''
          (start (sampleFs @ [(''/var/lib/pg.old'', Dir)]) ''/controller/run'' noFaults)))) = 8"
proof -
  have failed: "(Rename ''/var/lib/pg'' (''/var/lib/pg'' @ ''.old''),
      Some (LinkError ''rename'' ''/var/lib/pg'' ''/var/lib/pg.old'' EEXIST))
     \<in> set (outcomes (trace (snd (executeDowngrade ''/var/lib/pg''
          (start (sampleFs @ [(''/var/lib/pg.old'', Dir)]) ''/controller/run'' noFaults)))))"
    by (simp add: run_leftover)
  from executeDowngrade_rename_failure [OF pair_of_run failed] failed show ?thesis
    by auto
qed

text \<open>
  \<^bold>\<open>C6\<close>. Whenever the export step (\<^verbatim>\<open>pg_dumpall\<close>) or the restore step (\<^verbatim>\<open>psql\<close>) fails
  with an error \<open>e\<close>, the call that follows it, and the last of the run, is the attempt to
  stop the instance (\<^verbatim>\<open>pg_ctl -D pgData stop\<close>), and whatever the outcome \<open>r\<close> of that
  attempt, the error returned is the step's own message wrapping \<open>e\<close>.
\<close>

theorem executeDowngrade_stop_never_masks:
  assumes "executeDowngrade pgData (start f sd flt) = (res, w')"
    and "(step, msg)
           = (Streamed [''pg_dumpall'', ''-f'', path_Join [pgData, ''downgrade_dump.sql'']] ''pg_dumpall'',
              ''pg_dumpall failed: '')
       \<or> (step, msg)
           = (Streamed [''psql'', ''-f'', path_Join [pgData, ''downgrade_dump.sql''], ''postgres''] ''psql'',
              ''restore failed: '')"
    and "(step, Some e) \<in> set (outcomes (trace w'))"
  shows "res = Some (WrapError msg e)
       \<and> (\<exists>pre r. outcomes (trace w')
             = pre @ [(step, Some e), (Ran [''pg_ctl'', ''-D'', pgData, ''stop''], r)])"
  using cleanup_run [where pgData = pgData and f = f and sd = sd and flt = flt and step = step and msg = msg and e = e] assms by auto

theorem executeDowngrade_stop_never_masks_witness:
  "fst (executeDowngrade ''/var/lib/pg'' (start sampleFs ''/controller/run'' (failFrom 4 (ExitError 2))))
     = Some (WrapError ''pg_dumpall failed: '' (ExitError 2))
   \<and> last (outcomes (trace (snd (executeDowngrade ''/var/lib/pg''
              (start sampleFs ''/controller/run'' (failFrom 4 (ExitError 2)))))))
       = (Ran [''pg_ctl'', ''-D'', ''/var/lib/pg'', ''stop''], Some (ExitError 2))
   \<and> fst (executeDowngrade ''/var/lib/pg'' (start sampleFs ''/controller/run'' (failAt 10 (ExitError 3))))
       = Some (WrapError ''restore failed: '' (ExitError 3))
   \<and> last (outcomes (trace (snd (executeDowngrade ''/var/lib/pg''
              (start sampleFs ''/controller/run'' (failAt 10 (ExitError 3)))))))
       = (Ran [''pg_ctl'', ''-D'', ''/var/lib/pg'', ''stop''], None)"
proof -
  have dump: "(Streamed [''pg_dumpall'', ''-f'', path_Join [''/var/lib/pg'', ''downgrade_dump.sql'']]
                 ''pg_dumpall'', Some (ExitError 2))
     \<in> set (outcomes (trace (snd (executeDowngrade ''/var/lib/pg''
          (start sampleFs ''/controller/run'' (failFrom 4 (ExitError 2)))))))"
    by (simp add: run_dump_fails sample_paths)
  have restore: "(Streamed [''psql'', ''-f'', path_Join [''/var/lib/pg'', ''downgrade_dump.sql''], ''postgres'']
                 ''psql'', Some (ExitError 3))
     \<in> set (outcomes (trace (snd (executeDowngrade ''/var/lib/pg''
          (start sampleFs ''/controller/run'' (failAt 10 (ExitError 3)))))))"
    by (simp add: run_restore_fails sample_paths)
  from executeDowngrade_stop_never_masks [OF pair_of_run disjI1 [OF refl] dump]
  have "fst (executeDowngrade ''/var/lib/pg'' (start sampleFs ''/controller/run'' (failFrom 4 (ExitError 2))))
     = Some (WrapError ''pg_dumpall failed: '' (ExitError 2))"
    by simp
  moreover
  from executeDowngrade_stop_never_masks [OF pair_of_run disjI2 [OF refl] restore]
  have "fst (executeDowngrade ''/var/lib/pg'' (start sampleFs ''/controller/run'' (failAt 10 (ExitError 3))))
     = Some (WrapError ''restore failed: '' (ExitError 3))"
    by simp
  ultimately show ?thesis
    by (simp add: run_dump_fails run_restore_fails)
qed

text \<open>
  \<^bold>\<open>C7\<close>. If the restore step fails with an error \<open>e\<close>, the error returned reads
  \<^verbatim>\<open>restore failed\<close> and wraps \<open>e\<close>, the backup directory \<^verbatim>\<open>pgData + ".old"\<close> still exists at
  the end of the run, and the run never calls the removal of that directory.
\<close>

theorem executeDowngrade_restore_failure:
  assumes "executeDowngrade pgData (start f sd flt) = (res, w')"
    and "(Streamed [''psql'', ''-f'', path_Join [pgData, ''downgrade_dump.sql''], ''postgres''] ''psql'',
          Some e) \<in> set (outcomes (trace w'))"
  shows "(\<exists>er. res = Some er \<and> Unwrap er = Some e \<and> take 14 (Error er) = ''restore failed'')
       \<and> pathExists (fs w') (pgData @ ''.old'')
       \<and> RemoveAll (pgData @ ''.old'') \<notin> set (map fst (trace w'))"
  using restore_failure_run [where pgData = pgData and f = f and sd = sd and flt = flt and e = e] assms by simp

theorem executeDowngrade_restore_failure_witness:
  "(Streamed [''psql'', ''-f'', ''/var/lib/pg/downgrade_dump.sql'', ''postgres''] ''psql'',
      Some (ExitError 3))
     \<in> set (outcomes (trace (snd (executeDowngrade ''/var/lib/pg''
          (start sampleFs ''/controller/run'' (failAt 10 (ExitError 3)))))))
   \<and> pathExists
       (fs (snd (executeDowngrade ''/var/lib/pg'' (start sampleFs ''/controller/run'' (failAt 10 (ExitError 3))))))
       ''/var/lib/pg.old''
   \<and> RemoveAll ''/var/lib/pg.old''
       \<notin> set (map fst (trace (snd (executeDowngrade ''/var/lib/pg''
            (start sampleFs ''/controller/run'' (failAt 10 (ExitError 3)))))))"
proof -
  have failed: "(Streamed [''psql'', ''-f'', path_Join [''/var/lib/pg'', ''downgrade_dump.sql''], ''postgres'']
                 ''psql'', Some (ExitError 3))
     \<in> set (outcomes (trace (snd (executeDowngrade ''/var/lib/pg''
          (start sampleFs ''/controller/run'' (failAt 10 (ExitError 3)))))))"
    by (simp add: run_restore_fails sample_paths)
  from executeDowngrade_restore_failure [OF pair_of_run failed] failed show ?thesis
    by (simp add: sample_paths)
qed

section \<open>Invocations of the Trigger on the sample inputs\<close>

lemma sample_message: "downgradeMessage 17 15 = ''Downgrading cluster from version 17 to 15''"
  by (simp add: downgradeMessage_def showInt_def showNat.simps digitChar_def)

lemmas reconcile = ReconcileDowngrade_def registerPhase_def SetControllerReference_def Create_def Let_def
  createMajorDowngradeJobDefinition_def sampleCollaborators_def sampleClient_def sampleCluster_def
  samplePvcs_def noFaults_def failAt_def jobMajorDowngrade_def showInt_def showNat.simps digitChar_def
  sample_message sampleJob_def sampleClusterBusy_def sampleClientBusy_def sampleClusterDone_def
  brokenLookup_def sampleReplicas_def

lemma sample_first_invocation:
  "ReconcileDowngrade sampleCollaborators (sampleClient noFaults) sampleCluster [] samplePvcs
     = ((Some \<lparr>Requeue = True\<rparr>, None), sampleClientBusy, sampleClusterBusy)"
  by (simp add: reconcile)

lemma sample_second_invocation:
  "ReconcileDowngrade sampleCollaborators sampleClientBusy sampleClusterBusy [] samplePvcs
     = ((None, Some (StatusError ''AlreadyExists'')),
        sampleClientBusy\<lparr>requests := requests sampleClientBusy @
          [(PatchStatus ''pg'' PhaseMajorUpgrade ''Downgrading cluster from version 17 to 15'', None),
           (CreateJob sampleJob, Some (StatusError ''AlreadyExists''))]\<rparr>,
        sampleClusterBusy)"
  by (simp add: reconcile)

lemma sample_no_primary:
  "ReconcileDowngrade sampleCollaborators (sampleClient noFaults) sampleCluster [] sampleReplicas
     = ((None, None), sampleClient noFaults, sampleCluster)"
  by (simp add: reconcile)

lemma sample_patch_refused:
  "ReconcileDowngrade sampleCollaborators (sampleClient (failAt 0 (StatusError ''Conflict''))) sampleCluster []
       samplePvcs
     = ((None, Some (StatusError ''Conflict'')),
        (sampleClient (failAt 0 (StatusError ''Conflict'')))
          \<lparr>requests := [(PatchStatus ''pg'' PhaseMajorUpgrade ''Downgrading cluster from version 17 to 15'',
                          Some (StatusError ''Conflict''))]\<rparr>,
        sampleCluster)"
  by (simp add: reconcile)

lemma sample_facts:
  "GetPostgresqlMajorVersion sampleCollaborators sampleCluster = (15, None)"
  "GetPostgresqlMajorVersion sampleCollaborators sampleClusterBusy = (15, None)"
  "GetPostgresqlMajorVersion sampleCollaborators sampleClusterDone = (15, None)"
  "GetPostgresqlMajorVersion brokenLookup sampleCluster = (15, None)"
  "Status_PGDataImageInfo sampleCluster = Some \<lparr>Image = ''postgresql:17'', MajorVersion = 17\<rparr>"
  "Status_PGDataImageInfo sampleClusterBusy = Some \<lparr>Image = ''postgresql:17'', MajorVersion = 17\<rparr>"
  "Status_PGDataImageInfo sampleClusterDone = Some \<lparr>Image = ''postgresql:15'', MajorVersion = 15\<rparr>"
  "getPrimarySerial sampleCollaborators samplePvcs = (2, None)"
  "getPrimarySerial sampleCollaborators sampleReplicas = (0, None)"
  "getPrimarySerial brokenLookup samplePvcs = (0, Some (ErrorString ''invalid node serial''))"
  by (simp_all add: reconcile)

lemma sampleClient_fields:
  "jobs (sampleClient flt) = []" "requests (sampleClient flt) = []"
  "jobs sampleClientBusy = [sampleJob]" "Status_Phase sampleClusterBusy = PhaseMajorUpgrade"
  "Status_PhaseReason sampleClusterBusy = ''Downgrading cluster from version 17 to 15''"
  by (simp_all add: sampleClient_def sampleClientBusy_def sampleClusterBusy_def)

lemma sample_switched_invocation:
  "ReconcileDowngrade sampleCollaborators sampleClientBusy sampleClusterBusy [] samplePvcsSwitched
     = ((Some \<lparr>Requeue = True\<rparr>, None),
        sampleClientBusy\<lparr>requests := requests sampleClientBusy @
          [(PatchStatus ''pg'' PhaseMajorUpgrade ''Downgrading cluster from version 17 to 15'', None),
           (CreateJob sampleJobNode1, None)],
          jobs := [sampleJob, sampleJobNode1]\<rparr>,
        sampleClusterBusy)"
  by (simp add: reconcile samplePvcsSwitched_def sampleJobNode1_def)

lemma sample_switched_primary:
  "getPrimarySerial sampleCollaborators samplePvcsSwitched = (1, None)"
  by (simp add: reconcile samplePvcsSwitched_def)

text \<open>The requests an invocation sends do not depend on the units the client holds.\<close>

lemma requests_ignore_units:
  "map fst (requests (fst (snd (ReconcileDowngrade d (c\<lparr>jobs := js\<rparr>) cluster instances pvcs))))
     = map fst (requests (fst (snd (ReconcileDowngrade d c cluster instances pvcs))))"
  by (simp add: ReconcileDowngrade_def registerPhase_def SetControllerReference_def Create_def Let_def
      split: prod.splits option.splits)

lemma triple_of_run: "r = ((fst (fst r), snd (fst r)), fst (snd r), snd (snd r))"
  by simp

section \<open>The Trigger: the claims\<close>

text \<open>
  \<^bold>\<open>C3\<close>, amended. For every target version \<open>t\<close> the declared version parses to and every
  cluster state: ReconcileDowngrade creates an execution unit if and only if a recorded
  on-disk major version exists, \<open>t\<close> is strictly less than it, a non-zero primary serial
  resolves without error and the invocation returns no error (the phase registration, the
  owner reference and the create request succeed); it then adds exactly one unit. When \<open>t\<close>
  is greater than or equal to the recorded version, or no recorded version exists, nothing
  changes: no unit, no request, no mutation of the cluster, and the answer is
  \<^verbatim>\<open>(nil, nil)\<close>.
\<close>

theorem ReconcileDowngrade_decision:
  assumes "GetPostgresqlMajorVersion d cluster = (t, None)"
    and "ReconcileDowngrade d c cluster instances pvcs = ((res, err), c', cluster')"
  shows "((jobs c' \<noteq> jobs c) =
           ((\<exists>info. Status_PGDataImageInfo cluster = Some info \<and> t < MajorVersion info)
            \<and> (\<exists>n. getPrimarySerial d pvcs = (n, None) \<and> n \<noteq> 0) \<and> err = None))
       \<and> (jobs c' \<noteq> jobs c \<longrightarrow> (\<exists>j. jobs c' = jobs c @ [j]))
       \<and> (Status_PGDataImageInfo cluster = None
            \<or> (\<exists>info. Status_PGDataImageInfo cluster = Some info \<and> MajorVersion info \<le> t)
          \<longrightarrow> c' = c \<and> cluster' = cluster \<and> res = None \<and> err = None)"
  using assms unfolding ReconcileDowngrade_def Let_def
  by (auto split: prod.splits option.splits if_splits
      dest!: registerPhase_cases Create_ok Create_failed SetControllerReference_ok
        SetControllerReference_failed)

theorem ReconcileDowngrade_decision_witness:
  "jobs (fst (snd (ReconcileDowngrade sampleCollaborators (sampleClient noFaults) sampleCluster []
          samplePvcs)))
     \<noteq> jobs (sampleClient noFaults)
   \<and> (\<exists>j. jobs (fst (snd (ReconcileDowngrade sampleCollaborators (sampleClient noFaults) sampleCluster []
          samplePvcs))) = jobs (sampleClient noFaults) @ [j])
   \<and> ReconcileDowngrade sampleCollaborators (sampleClient noFaults) sampleClusterDone [] samplePvcs
       = ((None, None), sampleClient noFaults, sampleClusterDone)"
proof -
  have noerr: "snd (fst (ReconcileDowngrade sampleCollaborators (sampleClient noFaults) sampleCluster []
          samplePvcs)) = None"
    by (simp add: sample_first_invocation)
  from ReconcileDowngrade_decision [OF sample_facts(1) triple_of_run] noerr
  have created: "jobs (fst (snd (ReconcileDowngrade sampleCollaborators (sampleClient noFaults)
            sampleCluster [] samplePvcs))) \<noteq> jobs (sampleClient noFaults)
      \<and> (\<exists>j. jobs (fst (snd (ReconcileDowngrade sampleCollaborators (sampleClient noFaults) sampleCluster []
          samplePvcs))) = jobs (sampleClient noFaults) @ [j])"
    by (simp add: sample_facts)
  from ReconcileDowngrade_decision [OF sample_facts(3) triple_of_run]
  have "ReconcileDowngrade sampleCollaborators (sampleClient noFaults) sampleClusterDone [] samplePvcs
       = ((None, None), sampleClient noFaults, sampleClusterDone)"
    by (simp add: sample_facts prod_eq_iff)
  with created show ?thesis by simp
qed

text \<open>
  The claim as it was stated fails where no volume holds the primary role: the recorded
  version 17 exists and the target 15 is below it, and no unit is created.
\<close>

theorem ReconcileDowngrade_decision_counterexample:
  "GetPostgresqlMajorVersion sampleCollaborators sampleCluster = (15, None)
   \<and> Status_PGDataImageInfo sampleCluster = Some \<lparr>Image = ''postgresql:17'', MajorVersion = 17\<rparr>
   \<and> (15 :: int) < 17
   \<and> jobs (fst (snd (ReconcileDowngrade sampleCollaborators (sampleClient noFaults) sampleCluster []
            sampleReplicas))) = jobs (sampleClient noFaults)"
  by (simp add: sample_facts sample_no_primary)

text \<open>
  \<^bold>\<open>C4\<close>, amended. Across repeated invocations while a previously created downgrade unit
  for the same cluster is still active, the Trigger makes no check of the cluster status or
  of the units that exist before it schedules, and more than one unit of a cluster can
  become active. The requests an invocation sends are the same whatever units exist.
  Whenever the recorded version is above the target, a non-zero primary serial resolves and
  the invocation returns no error, the invocation adds exactly one unit to the units that
  exist, also while an earlier one is active. When the create request an invocation sends
  fails (as when the API server refuses a name that is taken), no unit is added and the
  invocation returns that error and no result.
\<close>

theorem ReconcileDowngrade_makes_no_check:
  assumes "ReconcileDowngrade d c cluster instances pvcs = ((res, err), c', cluster')"
  shows "(\<forall>js. map fst (requests (fst (snd (ReconcileDowngrade d (c\<lparr>jobs := js\<rparr>) cluster instances pvcs))))
               = map fst (requests c'))
       \<and> ((\<exists>t info n. GetPostgresqlMajorVersion d cluster = (t, None)
              \<and> Status_PGDataImageInfo cluster = Some info \<and> t < MajorVersion info
              \<and> getPrimarySerial d pvcs = (n, None) \<and> n \<noteq> 0)
            \<and> err = None
           \<longrightarrow> (\<exists>j. jobs c' = jobs c @ [j]))
       \<and> (\<forall>j e. (CreateJob j, Some e) \<in> set (drop (length (requests c)) (requests c'))
             \<longrightarrow> jobs c' = jobs c \<and> res = None \<and> err = Some e)"
proof (intro conjI allI impI)
  fix js
  show "map fst (requests (fst (snd (ReconcileDowngrade d (c\<lparr>jobs := js\<rparr>) cluster instances pvcs))))
          = map fst (requests c')"
    using requests_ignore_units
      [where d = d and c = c and js = js and cluster = cluster and instances = instances and pvcs = pvcs]
      assms
    by simp
next
  assume "(\<exists>t info n. GetPostgresqlMajorVersion d cluster = (t, None)
              \<and> Status_PGDataImageInfo cluster = Some info \<and> t < MajorVersion info
              \<and> getPrimarySerial d pvcs = (n, None) \<and> n \<noteq> 0)
            \<and> err = None"
  with assms show "\<exists>j. jobs c' = jobs c @ [j]"
    unfolding ReconcileDowngrade_def Let_def
    by (auto split: prod.splits option.splits if_splits
        dest!: registerPhase_cases Create_ok Create_failed SetControllerReference_ok
          SetControllerReference_failed)
next
  fix j e
  assume sent: "(CreateJob j, Some e) \<in> set (drop (length (requests c)) (requests c'))"
  with assms show "jobs c' = jobs c"
    unfolding ReconcileDowngrade_def Let_def
    by (auto split: prod.splits option.splits if_splits
        dest!: registerPhase_cases Create_ok Create_failed SetControllerReference_ok
          SetControllerReference_failed)
  from sent assms show "res = None"
    unfolding ReconcileDowngrade_def Let_def
    by (auto split: prod.splits option.splits if_splits
        dest!: registerPhase_cases Create_ok Create_failed SetControllerReference_ok
          SetControllerReference_failed)
  from sent assms show "err = Some e"
    unfolding ReconcileDowngrade_def Let_def
    by (auto split: prod.splits option.splits if_splits
        dest!: registerPhase_cases Create_ok Create_failed SetControllerReference_ok
          SetControllerReference_failed)
qed

theorem ReconcileDowngrade_makes_no_check_witness:
  "map fst (requests (fst (snd (ReconcileDowngrade sampleCollaborators (sampleClientBusy\<lparr>jobs := []\<rparr>)
          sampleClusterBusy [] samplePvcs))))
     = map fst (requests (fst (snd (ReconcileDowngrade sampleCollaborators sampleClientBusy
          sampleClusterBusy [] samplePvcs))))
   \<and> snd (fst (ReconcileDowngrade sampleCollaborators sampleClientBusy sampleClusterBusy []
          samplePvcsSwitched)) = None
   \<and> (\<exists>j. jobs (fst (snd (ReconcileDowngrade sampleCollaborators sampleClientBusy sampleClusterBusy []
          samplePvcsSwitched))) = jobs sampleClientBusy @ [j])
   \<and> (CreateJob sampleJob, Some (StatusError ''AlreadyExists''))
       \<in> set (drop (length (requests sampleClientBusy))
            (requests (fst (snd (ReconcileDowngrade sampleCollaborators sampleClientBusy sampleClusterBusy []
               samplePvcs)))))
   \<and> jobs (fst (snd (ReconcileDowngrade sampleCollaborators sampleClientBusy sampleClusterBusy []
          samplePvcs))) = jobs sampleClientBusy
   \<and> fst (ReconcileDowngrade sampleCollaborators sampleClientBusy sampleClusterBusy [] samplePvcs)
       = (None, Some (StatusError ''AlreadyExists''))"
proof -
  have required: "\<exists>t info n. GetPostgresqlMajorVersion sampleCollaborators sampleClusterBusy = (t, None)
              \<and> Status_PGDataImageInfo sampleClusterBusy = Some info \<and> t < MajorVersion info
              \<and> getPrimarySerial sampleCollaborators samplePvcsSwitched = (n, None) \<and> n \<noteq> 0"
    by (simp add: sample_facts sample_switched_primary)
  have noerr: "snd (fst (ReconcileDowngrade sampleCollaborators sampleClientBusy sampleClusterBusy []
          samplePvcsSwitched)) = None"
    by (simp add: sample_switched_invocation)
  have refused: "(CreateJob sampleJob, Some (StatusError ''AlreadyExists''))
       \<in> set (drop (length (requests sampleClientBusy))
            (requests (fst (snd (ReconcileDowngrade sampleCollaborators sampleClientBusy sampleClusterBusy []
               samplePvcs)))))"
    by (simp add: sample_second_invocation)
  from ReconcileDowngrade_makes_no_check [OF triple_of_run]
  have same: "map fst (requests (fst (snd (ReconcileDowngrade sampleCollaborators
          (sampleClientBusy\<lparr>jobs := []\<rparr>) sampleClusterBusy [] samplePvcs))))
     = map fst (requests (fst (snd (ReconcileDowngrade sampleCollaborators sampleClientBusy
          sampleClusterBusy [] samplePvcs))))"
    by blast
  from ReconcileDowngrade_makes_no_check [OF triple_of_run] required noerr
  have added: "\<exists>j. jobs (fst (snd (ReconcileDowngrade sampleCollaborators sampleClientBusy
          sampleClusterBusy [] samplePvcsSwitched))) = jobs sampleClientBusy @ [j]"
    by blast
  from ReconcileDowngrade_makes_no_check [OF triple_of_run] refused
  have "jobs (fst (snd (ReconcileDowngrade sampleCollaborators sampleClientBusy sampleClusterBusy []
          samplePvcs))) = jobs sampleClientBusy
      \<and> fst (fst (ReconcileDowngrade sampleCollaborators sampleClientBusy sampleClusterBusy [] samplePvcs))
          = None
      \<and> snd (fst (ReconcileDowngrade sampleCollaborators sampleClientBusy sampleClusterBusy [] samplePvcs))
          = Some (StatusError ''AlreadyExists'')"
    by blast
  with same noerr added refused show ?thesis
    by (simp add: prod_eq_iff)
qed

text \<open>
  The claim as it was stated fails on the samples. The first invocation leaves the unit
  for node 2 active and the phase recorded. An invocation on that very state sends the
  phase registration and the create request again, so no check of the status was made;
  and once the primary role has moved to node 1, an invocation on that state creates a
  second unit of the same cluster and asks for a follow-up pass, the first still active.
\<close>

theorem ReconcileDowngrade_makes_no_check_counterexample:
  "ReconcileDowngrade sampleCollaborators (sampleClient noFaults) sampleCluster [] samplePvcs
     = ((Some \<lparr>Requeue = True\<rparr>, None), sampleClientBusy, sampleClusterBusy)
   \<and> jobs sampleClientBusy = [sampleJob]
   \<and> Status_Phase sampleClusterBusy = PhaseMajorUpgrade
   \<and> map fst (drop (length (requests sampleClientBusy))
        (requests (fst (snd (ReconcileDowngrade sampleCollaborators sampleClientBusy sampleClusterBusy []
           samplePvcs)))))
       = [PatchStatus ''pg'' PhaseMajorUpgrade ''Downgrading cluster from version 17 to 15'',
          CreateJob sampleJob]
   \<and> fst (ReconcileDowngrade sampleCollaborators sampleClientBusy sampleClusterBusy [] samplePvcsSwitched)
       = (Some \<lparr>Requeue = True\<rparr>, None)
   \<and> jobs (fst (snd (ReconcileDowngrade sampleCollaborators sampleClientBusy sampleClusterBusy []
          samplePvcsSwitched))) = [sampleJob, sampleJobNode1]
   \<and> Owner sampleJob = Some (Name sampleCluster) \<and> Owner sampleJobNode1 = Some (Name sampleCluster)
   \<and> Role sampleJob = jobMajorDowngrade \<and> Role sampleJobNode1 = jobMajorDowngrade"
  by (simp add: sample_first_invocation sample_second_invocation sample_switched_invocation
      sampleClient_fields)
    (simp add: sampleJob_def sampleJobNode1_def sampleCluster_def jobMajorDowngrade_def)

text \<open>
  \<^bold>\<open>C8\<close>, amended. Whenever a downgrade is required (the target \<open>t\<close> is below the recorded
  version), a non-zero primary serial \<open>n\<close> resolves and the invocation returns no error
  (the phase registration, the owner reference and the create request succeed),
  ReconcileDowngrade first records the major-upgrade phase with the message
  \<^verbatim>\<open>Downgrading cluster from version <recorded> to <target>\<close> on the cluster entity, then
  creates exactly one unit, the one \<^verbatim>\<open>specs.CreatePrimaryJob\<close> builds for node \<open>n\<close>, the role
  \<^verbatim>\<open>major-downgrade\<close> and the fixed command, owned by the cluster, and answers with a
  request for a follow-up pass.
\<close>

theorem ReconcileDowngrade_schedules:
  assumes "GetPostgresqlMajorVersion d cluster = (t, None)"
    and "Status_PGDataImageInfo cluster = Some info" and "t < MajorVersion info"
    and "getPrimarySerial d pvcs = (n, None)" and "n \<noteq> 0"
    and "ReconcileDowngrade d c cluster instances pvcs = ((res, err), c', cluster')"
    and "err = None"
  shows "cluster' = cluster\<lparr>Status_Phase := PhaseMajorUpgrade,
                             Status_PhaseReason := downgradeMessage (MajorVersion info) t\<rparr>
       \<and> (\<exists>job. job = (CreatePrimaryJob d cluster' n jobMajorDowngrade
                          [''/controller/manager'', ''instance'', ''downgrade'', ''execute''])
                        \<lparr>Owner := Some (Name cluster)\<rparr>
            \<and> requests c' = requests c @
                 [(PatchStatus (Name cluster) PhaseMajorUpgrade (downgradeMessage (MajorVersion info) t),
                   None),
                  (CreateJob job, None)]
            \<and> jobs c' = jobs c @ [job])
       \<and> res = Some \<lparr>Requeue = True\<rparr>"
  using assms unfolding ReconcileDowngrade_def Let_def createMajorDowngradeJobDefinition_def
  by (auto split: prod.splits option.splits if_splits
      dest!: registerPhase_cases Create_ok Create_failed SetControllerReference_ok
        SetControllerReference_failed)

theorem ReconcileDowngrade_schedules_witness:
  "snd (snd (ReconcileDowngrade sampleCollaborators (sampleClient noFaults) sampleCluster [] samplePvcs))
     = sampleCluster\<lparr>Status_Phase := PhaseMajorUpgrade,
                      Status_PhaseReason := ''Downgrading cluster from version 17 to 15''\<rparr>
   \<and> requests (fst (snd (ReconcileDowngrade sampleCollaborators (sampleClient noFaults) sampleCluster []
          samplePvcs)))
       = [(PatchStatus ''pg'' PhaseMajorUpgrade ''Downgrading cluster from version 17 to 15'', None),
          (CreateJob sampleJob, None)]
   \<and> jobs (fst (snd (ReconcileDowngrade sampleCollaborators (sampleClient noFaults) sampleCluster []
          samplePvcs))) = [sampleJob]
   \<and> NodeSerial sampleJob = 2
   \<and> Command sampleJob = [''/controller/manager'', ''instance'', ''downgrade'', ''execute'']
   \<and> fst (fst (ReconcileDowngrade sampleCollaborators (sampleClient noFaults) sampleCluster []
          samplePvcs)) = Some \<lparr>Requeue = True\<rparr>"
proof -
  have noerr: "snd (fst (ReconcileDowngrade sampleCollaborators (sampleClient noFaults) sampleCluster []
          samplePvcs)) = None"
    by (simp add: sample_first_invocation)
  have below: "15 < MajorVersion \<lparr>Image = ''postgresql:17'', MajorVersion = 17\<rparr>"
    and serial: "(2 :: int) \<noteq> 0"
    by simp_all
  from ReconcileDowngrade_schedules
    [OF sample_facts(1) sample_facts(5) below sample_facts(8) serial triple_of_run noerr]
  show ?thesis
    by (simp add: sample_message reconcile)
qed

text \<open>
  The claim as it was stated fails when the API refuses the phase registration: the
  downgrade is required and the primary resolves to node 2, yet nothing is recorded, no
  unit is created, and the answer is the error with no request for a follow-up pass.
\<close>

theorem ReconcileDowngrade_schedules_counterexample:
  "GetPostgresqlMajorVersion sampleCollaborators sampleCluster = (15, None)
   \<and> Status_PGDataImageInfo sampleCluster = Some \<lparr>Image = ''postgresql:17'', MajorVersion = 17\<rparr>
   \<and> getPrimarySerial sampleCollaborators samplePvcs = (2, None)
   \<and> fst (ReconcileDowngrade sampleCollaborators (sampleClient (failAt 0 (StatusError ''Conflict'')))
            sampleCluster [] samplePvcs)
       = (None, Some (StatusError ''Conflict''))
   \<and> jobs (fst (snd (ReconcileDowngrade sampleCollaborators
            (sampleClient (failAt 0 (StatusError ''Conflict''))) sampleCluster [] samplePvcs))) = []
   \<and> snd (snd (ReconcileDowngrade sampleCollaborators
            (sampleClient (failAt 0 (StatusError ''Conflict''))) sampleCluster [] samplePvcs))
       = sampleCluster"
  by (simp add: sample_facts sample_patch_refused sampleClient_fields)

text \<open>
  \<^bold>\<open>C9\<close>. If no primary node resolves from the volumes (the lookup answers an error, or the
  serial is zero, which stands for no primary), ReconcileDowngrade has no side effect: the
  client (its units and its requests) and the cluster entity are as before, no unit is
  returned or created, and where the lookup was reached (a downgrade was required) the
  error returned is the error of the lookup, \<^verbatim>\<open>nil\<close> when it had none.
\<close>

theorem ReconcileDowngrade_no_primary:
  assumes "getPrimarySerial d pvcs = (n, perr)" and "perr \<noteq> None \<or> n = 0"
    and "ReconcileDowngrade d c cluster instances pvcs = ((res, err), c', cluster')"
  shows "c' = c \<and> cluster' = cluster \<and> res = None
       \<and> ((\<exists>t info. GetPostgresqlMajorVersion d cluster = (t, None)
              \<and> Status_PGDataImageInfo cluster = Some info \<and> t < MajorVersion info)
            \<longrightarrow> err = perr)"
  using assms unfolding ReconcileDowngrade_def Let_def
  by (auto split: prod.splits option.splits if_splits)

theorem ReconcileDowngrade_no_primary_witness:
  "ReconcileDowngrade sampleCollaborators (sampleClient noFaults) sampleCluster [] sampleReplicas
     = ((None, None), sampleClient noFaults, sampleCluster)
   \<and> ReconcileDowngrade brokenLookup (sampleClient noFaults) sampleCluster [] samplePvcs
     = ((None, Some (ErrorString ''invalid node serial'')), sampleClient noFaults, sampleCluster)"
proof -
  have required: "\<exists>t info. GetPostgresqlMajorVersion sampleCollaborators sampleCluster = (t, None)
              \<and> Status_PGDataImageInfo sampleCluster = Some info \<and> t < MajorVersion info"
    by (simp add: sample_facts)
  have required': "\<exists>t info. GetPostgresqlMajorVersion brokenLookup sampleCluster = (t, None)
              \<and> Status_PGDataImageInfo sampleCluster = Some info \<and> t < MajorVersion info"
    by (simp add: sample_facts)
  have zero: "(None :: error option) \<noteq> None \<or> (0 :: int) = 0"
    and failed: "Some (ErrorString ''invalid node serial'') \<noteq> None \<or> (0 :: int) = 0"
    by simp_all
  from ReconcileDowngrade_no_primary [OF sample_facts(9) zero triple_of_run] required
  have "ReconcileDowngrade sampleCollaborators (sampleClient noFaults) sampleCluster [] sampleReplicas
     = ((None, None), sampleClient noFaults, sampleCluster)"
    by (simp add: prod_eq_iff)
  moreover
  from ReconcileDowngrade_no_primary [OF sample_facts(10) failed triple_of_run] required'
  have "ReconcileDowngrade brokenLookup (sampleClient noFaults) sampleCluster [] samplePvcs
     = ((None, Some (ErrorString ''invalid node serial'')), sampleClient noFaults, sampleCluster)"
    by (simp add: prod_eq_iff)
  ultimately show ?thesis by simp
qed

text \<open>
  \<^bold>\<open>C10\<close>. Every phase registration an invocation of ReconcileDowngrade sends carries the
  major-upgrade phase constant, and an invocation that schedules a unit leaves that
  constant as the phase of the cluster: the downgrade shows in the message only.
\<close>

theorem ReconcileDowngrade_phase_identifier:
  assumes "ReconcileDowngrade d c cluster instances pvcs = ((res, err), c', cluster')"
  shows "(jobs c' \<noteq> jobs c \<longrightarrow> Status_Phase cluster' = PhaseMajorUpgrade)
       \<and> (\<forall>nm ph rs r. (PatchStatus nm ph rs, r) \<in> set (drop (length (requests c)) (requests c'))
             \<longrightarrow> ph = PhaseMajorUpgrade)"
  using assms unfolding ReconcileDowngrade_def Let_def
  by (auto split: prod.splits option.splits if_splits
      dest!: registerPhase_cases Create_ok Create_failed SetControllerReference_ok
        SetControllerReference_failed)

theorem ReconcileDowngrade_phase_identifier_witness:
  "jobs (fst (snd (ReconcileDowngrade sampleCollaborators (sampleClient noFaults) sampleCluster []
          samplePvcs))) \<noteq> jobs (sampleClient noFaults)
   \<and> Status_Phase (snd (snd (ReconcileDowngrade sampleCollaborators (sampleClient noFaults) sampleCluster
          [] samplePvcs))) = PhaseMajorUpgrade
   \<and> Status_PhaseReason (snd (snd (ReconcileDowngrade sampleCollaborators (sampleClient noFaults)
          sampleCluster [] samplePvcs))) = ''Downgrading cluster from version 17 to 15''"
proof -
  have changed: "jobs (fst (snd (ReconcileDowngrade sampleCollaborators (sampleClient noFaults)
          sampleCluster [] samplePvcs))) \<noteq> jobs (sampleClient noFaults)"
    by (simp add: sample_first_invocation sampleClient_fields)
  from ReconcileDowngrade_phase_identifier [OF triple_of_run] changed
  have "Status_Phase (snd (snd (ReconcileDowngrade sampleCollaborators (sampleClient noFaults)
          sampleCluster [] samplePvcs))) = PhaseMajorUpgrade"
    by blast
  with changed show ?thesis
    by (simp add: sample_first_invocation sampleClient_fields)
qed

end
